theory Spec2Isabelle
  imports Complex_Main
begin

section \<open>E-Procurement API: a shallow embedding of \<open>main.py\<close>\<close>

text \<open>
  The handlers of \<open>main.py\<close> read and write a document store. Each handler is a function
  from the request and the store to a result (an \<open>HTTPException\<close> or a response body) and
  the store it leaves behind. A raise ends the handler; the writes made before it stay.
  The reading endpoints (the \<open>GET\<close> routes) change nothing and are left out.
  Python's \<open>float\<close> quantities are a type parameter \<open>'q\<close> of the model. Only its \<open>0\<close>, \<open>+\<close>
  and \<open>\<le>\<close> are used and no law of arithmetic is assumed of them: every sum is taken in the
  order in which the program takes it, so what is proved holds of floating-point numbers
  with their rounding as of any other numbers.
\<close>

subsection \<open>Identifiers and errors\<close>

type_synonym ObjectId = string
type_synonym datetime = nat

datatype HTTPException = HTTPException (status_code: nat) (detail: string)

datatype response = Id string | Ok

text \<open>
  Modelled from the spec: the identifier format of the store (\<open>bson.ObjectId\<close> is not
  under src/). An identifier is 24 hexadecimal digits. As the store's library does, it is
  read without regard to case and printed in lower case, so an \<open>ObjectId\<close> is kept as
  its lower-case string; no property below depends on the case of a digit.
\<close>

definition is_hex :: "char \<Rightarrow> bool" where
  "is_hex c = (c \<in> set ''0123456789abcdefABCDEF'')"

definition lower_hex :: "char \<Rightarrow> char" where
  "lower_hex c =
     (if c = CHR ''A'' then CHR ''a'' else if c = CHR ''B'' then CHR ''b''
      else if c = CHR ''C'' then CHR ''c'' else if c = CHR ''D'' then CHR ''d''
      else if c = CHR ''E'' then CHR ''e'' else if c = CHR ''F'' then CHR ''f'' else c)"

definition valid_id :: "string \<Rightarrow> bool" where
  "valid_id s = (length s = 24 \<and> list_all is_hex s)"

text \<open>\<open>oid\<close>: the conversion of a request's identifier, 400 when it is malformed.\<close>

definition oid :: "string \<Rightarrow> HTTPException + ObjectId" where
  "oid id_str =
     (if valid_id id_str then Inr (map lower_hex id_str)
      else Inl (HTTPException 400 ''Invalid id format''))"

text \<open>
  Modelled from the spec: identifier generation (\<open>database.create_document\<close> is not under
  src/). The store hands out fresh identifiers; here the n-th one is n in 24 hex digits.
\<close>

definition hex_digit :: "nat \<Rightarrow> char" where
  "hex_digit d = ''0123456789abcdef'' ! (d mod 16)"

fun hex_string :: "nat \<Rightarrow> nat \<Rightarrow> string" where
  "hex_string 0 n = []"
| "hex_string (Suc w) n = hex_string w (n div 16) @ [hex_digit n]"

definition new_oid :: "nat \<Rightarrow> ObjectId" where
  "new_oid n = hex_string 24 n"

subsection \<open>Request bodies\<close>

record UserIn =
  ui_name :: string
  ui_email :: string
  ui_role :: string
  ui_department :: "string option"
  ui_manager_id :: "string option"

record SupplierIn =
  si_name :: string
  si_code :: string
  si_contact_email :: "string option"
  si_phone :: "string option"
  si_address :: "string option"

record ItemIn =
  ii_sku :: string
  ii_name :: string
  ii_uom :: string
  ii_description :: "string option"
  ii_category :: "string option"

record 'q PRLineIn =
  sku :: string
  name :: string
  qty :: 'q
  uom :: string

record 'q PRCreate =
  rq_employee_id :: string
  rq_manager_id :: string
  rq_reason :: "string option"
  rq_lines :: "'q PRLineIn list"

record PRDecision =
  dec_manager_id :: string
  approve :: bool
  dec_rejected_reason :: "string option"

record POCreate =
  poc_pr_id :: string
  poc_supplier_id :: string

record 'q GRLineIn =
  gr_sku :: string
  gr_name :: string
  qty_received :: 'q
  gr_uom :: string

record 'q GRCreate =
  grc_po_id :: string
  grc_lines :: "'q GRLineIn list"

subsection \<open>Documents\<close>

record User =
  user_name :: string
  user_email :: string
  user_role :: string
  user_department :: "string option"
  user_manager_id :: "string option"
  is_active :: bool

record 'q Inventory =
  inv_sku :: string
  on_hand :: 'q
  inv_uom :: string

record 'q PurchaseRequest =
  employee_id :: string
  manager_id :: string
  reason :: "string option"
  lines :: "'q PRLineIn list"
  status :: string
  approved_by :: "string option"
  approved_at :: "datetime option"
  rejected_reason :: "string option"
  po_id :: "string option"

record 'q POLine =
  po_sku :: string
  po_name :: string
  po_qty :: 'q
  po_uom :: string

record 'q PurchaseOrder =
  pr_id :: string
  supplier_id :: string
  po_lines :: "'q POLine list"
  po_status :: string

record 'q GoodsReceipt =
  gr_po_id :: string
  gr_lines :: "'q GRLineIn list"

record Notification =
  to_user_id :: "string option"
  role :: "string option"
  title :: string
  message :: string
  link_type :: string
  link_id :: string
  read :: bool
  updated_at :: "datetime option"

subsection \<open>The document store\<close>

text \<open>
  Modelled from the spec: the document store (\<open>database.py\<close> is not under src/): create,
  find by filter, update the first match, upsert. A collection is the list of its
  documents in insertion order, each with its \<open>_id\<close>.
\<close>

type_synonym 'a collection = "(ObjectId \<times> 'a) list"

record 'q db =
  c_user :: "User collection"
  c_supplier :: "SupplierIn collection"
  c_item :: "ItemIn collection"
  c_inventory :: "'q Inventory collection"
  c_purchaserequest :: "'q PurchaseRequest collection"
  c_purchaseorder :: "'q PurchaseOrder collection"
  c_goodsreceipt :: "'q GoodsReceipt collection"
  c_notification :: "Notification collection"
  next_id :: nat

definition empty_db :: "'q db" where
  "empty_db = \<lparr>c_user = [], c_supplier = [], c_item = [], c_inventory = [],
     c_purchaserequest = [], c_purchaseorder = [], c_goodsreceipt = [],
     c_notification = [], next_id = 0\<rparr>"

definition has_id :: "ObjectId \<Rightarrow> ObjectId \<times> 'a \<Rightarrow> bool" where
  "has_id i d = (fst d = i)"

fun find_one :: "(ObjectId \<times> 'a \<Rightarrow> bool) \<Rightarrow> 'a collection \<Rightarrow> 'a option" where
  "find_one q [] = None"
| "find_one q (d # ds) = (if q d then Some (snd d) else find_one q ds)"

fun update_one :: "(ObjectId \<times> 'a \<Rightarrow> bool) \<Rightarrow> ('a \<Rightarrow> 'a) \<Rightarrow> 'a collection \<Rightarrow> 'a collection" where
  "update_one q f [] = []"
| "update_one q f (d # ds) = (if q d then (fst d, f (snd d)) # ds else d # update_one q f ds)"

definition find_all :: "(ObjectId \<times> 'a \<Rightarrow> bool) \<Rightarrow> 'a collection \<Rightarrow> 'a list" where
  "find_all q c = map snd (filter q c)"

text \<open>The fresh identifier of the next insert, and the store after it was taken.\<close>

definition fresh :: "'q db \<Rightarrow> ObjectId \<times> 'q db" where
  "fresh s = (new_oid (next_id s), s\<lparr>next_id := next_id s + 1\<rparr>)"

text \<open>
  \<open>create_document\<close>, one per collection: the document is appended under a fresh
  identifier, which is returned as a string.
\<close>

definition create_user_doc :: "User \<Rightarrow> 'q db \<Rightarrow> string \<times> 'q db" where
  "create_user_doc d s =
     (let (i, s1) = fresh s in (i, s1\<lparr>c_user := c_user s1 @ [(i, d)]\<rparr>))"

definition create_supplier_doc :: "SupplierIn \<Rightarrow> 'q db \<Rightarrow> string \<times> 'q db" where
  "create_supplier_doc d s =
     (let (i, s1) = fresh s in (i, s1\<lparr>c_supplier := c_supplier s1 @ [(i, d)]\<rparr>))"

definition create_item_doc :: "ItemIn \<Rightarrow> 'q db \<Rightarrow> string \<times> 'q db" where
  "create_item_doc d s =
     (let (i, s1) = fresh s in (i, s1\<lparr>c_item := c_item s1 @ [(i, d)]\<rparr>))"

definition create_inventory_doc :: "'q Inventory \<Rightarrow> 'q db \<Rightarrow> string \<times> 'q db" where
  "create_inventory_doc d s =
     (let (i, s1) = fresh s in (i, s1\<lparr>c_inventory := c_inventory s1 @ [(i, d)]\<rparr>))"

definition create_pr_doc :: "'q PurchaseRequest \<Rightarrow> 'q db \<Rightarrow> string \<times> 'q db" where
  "create_pr_doc d s =
     (let (i, s1) = fresh s in (i, s1\<lparr>c_purchaserequest := c_purchaserequest s1 @ [(i, d)]\<rparr>))"

definition create_po_doc :: "'q PurchaseOrder \<Rightarrow> 'q db \<Rightarrow> string \<times> 'q db" where
  "create_po_doc d s =
     (let (i, s1) = fresh s in (i, s1\<lparr>c_purchaseorder := c_purchaseorder s1 @ [(i, d)]\<rparr>))"

definition create_gr_doc :: "'q GoodsReceipt \<Rightarrow> 'q db \<Rightarrow> string \<times> 'q db" where
  "create_gr_doc d s =
     (let (i, s1) = fresh s in (i, s1\<lparr>c_goodsreceipt := c_goodsreceipt s1 @ [(i, d)]\<rparr>))"

definition create_notification :: "Notification \<Rightarrow> 'q db \<Rightarrow> string \<times> 'q db" where
  "create_notification d s =
     (let (i, s1) = fresh s in (i, s1\<lparr>c_notification := c_notification s1 @ [(i, d)]\<rparr>))"

subsection \<open>Users and master data\<close>

definition create_user :: "UserIn \<Rightarrow> 'q db \<Rightarrow> (HTTPException + response) \<times> 'q db" where
  "create_user u s =
     (let user_doc = \<lparr>user_name = ui_name u, user_email = ui_email u, user_role = ui_role u,
            user_department = ui_department u, user_manager_id = ui_manager_id u,
            is_active = True\<rparr>;
          (new_id, s1) = create_user_doc user_doc s
      in (Inr (Id new_id), s1))"

definition create_supplier :: "SupplierIn \<Rightarrow> 'q db \<Rightarrow> (HTTPException + response) \<times> 'q db" where
  "create_supplier sp s =
     (let (new_id, s1) = create_supplier_doc sp s in (Inr (Id new_id), s1))"

definition create_item :: "ItemIn \<Rightarrow> ('q::zero) db \<Rightarrow> (HTTPException + response) \<times> 'q db" where
  "create_item item s =
     (let (item_id, s1) = create_item_doc item s in
      (case find_one (\<lambda>d. inv_sku (snd d) = ii_sku item) (c_inventory s1) of
         None \<Rightarrow>
           (Inr (Id item_id),
            snd (create_inventory_doc
                   \<lparr>inv_sku = ii_sku item, on_hand = 0, inv_uom = ii_uom item\<rparr> s1))
       | Some inv_doc \<Rightarrow> (Inr (Id item_id), s1)))"

subsection \<open>Purchase requests\<close>

definition create_pr :: "'q PRCreate \<Rightarrow> 'q db \<Rightarrow> (HTTPException + response) \<times> 'q db" where
  "create_pr pr s =
     (case oid (rq_employee_id pr) of
        Inl e \<Rightarrow> (Inl e, s)
      | Inr emp_oid \<Rightarrow>
     (case find_one (\<lambda>d. has_id emp_oid d \<and> user_role (snd d) = ''employee'') (c_user s) of
        None \<Rightarrow> (Inl (HTTPException 400 ''Invalid employee_id''), s)
      | Some emp \<Rightarrow>
     (case oid (rq_manager_id pr) of
        Inl e \<Rightarrow> (Inl e, s)
      | Inr mgr_oid \<Rightarrow>
     (case find_one (\<lambda>d. has_id mgr_oid d \<and> user_role (snd d) = ''manager'') (c_user s) of
        None \<Rightarrow> (Inl (HTTPException 400 ''Invalid manager_id''), s)
      | Some mgr \<Rightarrow>
          (let pr_doc = \<lparr>employee_id = rq_employee_id pr, manager_id = rq_manager_id pr,
                 reason = rq_reason pr, lines = rq_lines pr, status = ''submitted'',
                 approved_by = None, approved_at = None, rejected_reason = None,
                 po_id = None\<rparr>;
               (new_pr_id, s1) = create_pr_doc pr_doc s;
               (_, s2) = create_notification
                 \<lparr>to_user_id = Some (rq_manager_id pr), role = None,
                  title = ''New Purchase Request'',
                  message = ''PR '' @ new_pr_id @ '' awaiting your approval'',
                  link_type = ''PR'', link_id = new_pr_id, read = False,
                  updated_at = None\<rparr> s1
           in (Inr (Id new_pr_id), s2))))))"

definition decide_pr ::
  "datetime \<Rightarrow> string \<Rightarrow> PRDecision \<Rightarrow> 'q db \<Rightarrow> (HTTPException + response) \<times> 'q db" where
  "decide_pr now pr_id_str decision s =
     (case oid pr_id_str of
        Inl e \<Rightarrow> (Inl e, s)
      | Inr pr_oid \<Rightarrow>
     (case find_one (has_id pr_oid) (c_purchaserequest s) of
        None \<Rightarrow> (Inl (HTTPException 404 ''PR not found''), s)
      | Some pr_doc \<Rightarrow>
          if manager_id pr_doc \<noteq> dec_manager_id decision
          then (Inl (HTTPException 403 ''Manager not assigned to this PR''), s)
          else if status pr_doc \<notin> set [''submitted'']
          then (Inl (HTTPException 400 ''PR is not pending approval''), s)
          else if approve decision then
            (let s1 = s\<lparr>c_purchaserequest :=
                   update_one (has_id pr_oid)
                     (\<lambda>d. d\<lparr>status := ''approved'',
                            approved_by := Some (dec_manager_id decision),
                            approved_at := Some now\<rparr>)
                     (c_purchaserequest s)\<rparr>;
                 (_, s2) = create_notification
                   \<lparr>to_user_id = None, role = Some ''purchasing'',
                    title = ''PR Approved'',
                    message = ''PR '' @ pr_id_str @ '' is ready for PO'',
                    link_type = ''PR'', link_id = pr_id_str, read = False,
                    updated_at = None\<rparr> s1
             in (Inr Ok, s2))
          else
            (let s1 = s\<lparr>c_purchaserequest :=
                   update_one (has_id pr_oid)
                     (\<lambda>d. d\<lparr>status := ''rejected'',
                            rejected_reason :=
                              Some (case dec_rejected_reason decision of
                                      None \<Rightarrow> [] | Some r \<Rightarrow> r)\<rparr>)
                     (c_purchaserequest s)\<rparr>;
                 (_, s2) = create_notification
                   \<lparr>to_user_id = Some (employee_id pr_doc), role = None,
                    title = ''PR Rejected'',
                    message = ''PR '' @ pr_id_str @ '' was rejected'',
                    link_type = ''PR'', link_id = pr_id_str, read = False,
                    updated_at = None\<rparr> s1
             in (Inr Ok, s2))))"

subsection \<open>Purchase orders\<close>

definition create_po :: "POCreate \<Rightarrow> 'q db \<Rightarrow> (HTTPException + response) \<times> 'q db" where
  "create_po data s =
     (case oid (poc_pr_id data) of
        Inl e \<Rightarrow> (Inl e, s)
      | Inr pr_oid \<Rightarrow>
     (case find_one (has_id pr_oid) (c_purchaserequest s) of
        None \<Rightarrow> (Inl (HTTPException 404 ''PR not found''), s)
      | Some pr_doc \<Rightarrow>
          if status pr_doc \<noteq> ''approved''
          then (Inl (HTTPException 400 ''PR is not approved''), s)
          else
     (case oid (poc_supplier_id data) of
        Inl e \<Rightarrow> (Inl e, s)
      | Inr supplier_oid \<Rightarrow>
     (case find_one (has_id supplier_oid) (c_supplier s) of
        None \<Rightarrow> (Inl (HTTPException 400 ''Invalid supplier_id''), s)
      | Some supplier \<Rightarrow>
          (let po_doc = \<lparr>pr_id = poc_pr_id data, supplier_id = poc_supplier_id data,
                 po_lines = map (\<lambda>l. \<lparr>po_sku = sku l, po_name = name l,
                                         po_qty = qty l, po_uom = uom l\<rparr>) (lines pr_doc),
                 po_status = ''sent''\<rparr>;
               (new_po_id, s1) = create_po_doc po_doc s;
               s2 = s1\<lparr>c_purchaserequest :=
                      update_one (has_id pr_oid)
                        (\<lambda>d. d\<lparr>status := ''ordered'', po_id := Some new_po_id\<rparr>)
                        (c_purchaserequest s1)\<rparr>;
               (_, s3) = create_notification
                 \<lparr>to_user_id = Some (employee_id pr_doc), role = None,
                  title = ''PO Created'',
                  message = ''PO '' @ new_po_id @ '' created from your PR'',
                  link_type = ''PO'', link_id = new_po_id, read = False,
                  updated_at = None\<rparr> s2
           in (Inr (Id new_po_id), s3))))))"

subsection \<open>Goods receipts and inventory\<close>

text \<open>
  The upsert on \<open>sku\<close>: the first inventory document of the SKU gets \<open>on_hand\<close> incremented;
  when there is none, one is inserted with the increment as \<open>on_hand\<close> and the line's
  \<open>uom\<close>.
\<close>

definition inc_on_hand :: "('q::plus) GRLineIn \<Rightarrow> 'q db \<Rightarrow> 'q db" where
  "inc_on_hand line s =
     (case find_one (\<lambda>d. inv_sku (snd d) = gr_sku line) (c_inventory s) of
        Some inv_doc \<Rightarrow>
          s\<lparr>c_inventory :=
              update_one (\<lambda>d. inv_sku (snd d) = gr_sku line)
                (\<lambda>d. d\<lparr>on_hand := on_hand d + qty_received line\<rparr>) (c_inventory s)\<rparr>
      | None \<Rightarrow>
          snd (create_inventory_doc
                 \<lparr>inv_sku = gr_sku line, on_hand = qty_received line,
                  inv_uom = gr_uom line\<rparr> s))"

fun update_inventory :: "('q::plus) GRLineIn list \<Rightarrow> 'q db \<Rightarrow> 'q db" where
  "update_inventory [] s = s"
| "update_inventory (line # rest) s = update_inventory rest (inc_on_hand line s)"

definition total_received_of :: "('q::{zero,plus}) GoodsReceipt list \<Rightarrow> 'q" where
  "total_received_of grs =
     foldl (\<lambda>total g. foldl (\<lambda>t l. t + qty_received l) total (gr_lines g)) 0 grs"

definition create_gr :: "('q::{zero,plus,ord}) GRCreate \<Rightarrow> 'q db \<Rightarrow> (HTTPException + response) \<times> 'q db" where
  "create_gr data s =
     (case oid (grc_po_id data) of
        Inl e \<Rightarrow> (Inl e, s)
      | Inr po_oid \<Rightarrow>
     (case find_one (has_id po_oid) (c_purchaseorder s) of
        None \<Rightarrow> (Inl (HTTPException 404 ''PO not found''), s)
      | Some po \<Rightarrow>
          (let gr_doc = \<lparr>gr_po_id = grc_po_id data, gr_lines = grc_lines data\<rparr>;
               (gr_id, s1) = create_gr_doc gr_doc s;
               s2 = update_inventory (grc_lines data) s1;
               total_po_qty = foldl (\<lambda>total l. total + po_qty l) 0 (po_lines po);
               grs = find_all (\<lambda>d. gr_po_id (snd d) = grc_po_id data) (c_goodsreceipt s2);
               total_received = total_received_of grs;
               new_status = (if total_received \<ge> total_po_qty then ''received''
                             else ''partially_received'');
               s3 = s2\<lparr>c_purchaseorder :=
                      update_one (has_id po_oid) (\<lambda>d. d\<lparr>po_status := new_status\<rparr>)
                        (c_purchaseorder s2)\<rparr>
           in (case oid (pr_id po) of
                 Inl e \<Rightarrow> (Inl e, s3)
               | Inr pr_oid \<Rightarrow>
              (case find_one (has_id pr_oid) (c_purchaserequest s3) of
                 None \<Rightarrow> (Inr (Id gr_id), s3)
               | Some pr \<Rightarrow>
                   (Inr (Id gr_id),
                    snd (create_notification
                      \<lparr>to_user_id = Some (employee_id pr), role = None,
                       title = ''Goods Received'',
                       message = ''GR '' @ gr_id @ '' recorded and inventory updated'',
                       link_type = ''GR'', link_id = gr_id, read = False,
                       updated_at = None\<rparr> s3)))))))"

subsection \<open>Notifications\<close>

definition mark_notification_read ::
  "datetime \<Rightarrow> string \<Rightarrow> 'q db \<Rightarrow> (HTTPException + response) \<times> 'q db" where
  "mark_notification_read now notif_id s =
     (case oid notif_id of
        Inl e \<Rightarrow> (Inl e, s)
      | Inr notif_oid \<Rightarrow>
          (Inr Ok,
           s\<lparr>c_notification :=
               update_one (has_id notif_oid) (\<lambda>d. d\<lparr>read := True, updated_at := Some now\<rparr>)
                 (c_notification s)\<rparr>))"

subsection \<open>Requests and runs\<close>

text \<open>
  The writing endpoints of the API. A request is handled at a clock reading \<open>now\<close>; a run
  handles a list of requests one after the other, whatever each of them returns.
\<close>

datatype 'q request =
    PostUsers UserIn
  | PostSuppliers SupplierIn
  | PostItems ItemIn
  | PostPrs "'q PRCreate"
  | PostPrsDecision string PRDecision
  | PostPos POCreate
  | PostGrs "'q GRCreate"
  | PostNotificationsRead string

fun handle :: "datetime \<Rightarrow> ('q::{zero,plus,ord}) request \<Rightarrow> 'q db \<Rightarrow> (HTTPException + response) \<times> 'q db" where
  "handle now (PostUsers u) s = create_user u s"
| "handle now (PostSuppliers sp) s = create_supplier sp s"
| "handle now (PostItems item) s = create_item item s"
| "handle now (PostPrs pr) s = create_pr pr s"
| "handle now (PostPrsDecision pr_id_str decision) s = decide_pr now pr_id_str decision s"
| "handle now (PostPos data) s = create_po data s"
| "handle now (PostGrs data) s = create_gr data s"
| "handle now (PostNotificationsRead notif_id) s = mark_notification_read now notif_id s"

fun run :: "(datetime \<times> ('q::{zero,plus,ord}) request) list \<Rightarrow> 'q db \<Rightarrow> 'q db" where
  "run [] s = s"
| "run (r # rs) s = run rs (snd (handle (fst r) (snd r) s))"

subsection \<open>Notions the properties are stated with\<close>

text \<open>The edges of the purchase-request status graph.\<close>

definition pr_edge :: "string \<Rightarrow> string \<Rightarrow> bool" where
  "pr_edge a b =
     ((a, b) \<in> set [(''submitted'', ''approved''), (''submitted'', ''rejected''),
                    (''approved'', ''ordered'')])"

text \<open>
  Purchase requests are never deleted or reordered, so the k-th document of the collection
  is the same request in every later store.
\<close>

definition pr_status_at :: "'q db \<Rightarrow> nat \<Rightarrow> string" where
  "pr_status_at s k = status (snd (c_purchaserequest s ! k))"

definition pr_id_at :: "'q db \<Rightarrow> nat \<Rightarrow> ObjectId" where
  "pr_id_at s k = fst (c_purchaserequest s ! k)"

definition pr_step :: "'q db \<Rightarrow> 'q db \<Rightarrow> nat \<Rightarrow> bool" where
  "pr_step s s' k =
     (k < length (c_purchaserequest s') \<and> pr_id_at s' k = pr_id_at s k \<and>
      (pr_status_at s' k = pr_status_at s k \<or> pr_edge (pr_status_at s k) (pr_status_at s' k)))"

text \<open>The notifications a handler appended, going from store \<open>s\<close> to store \<open>s'\<close>.\<close>

definition created_notifications :: "'q db \<Rightarrow> 'q db \<Rightarrow> Notification list" where
  "created_notifications s s' = map snd (drop (length (c_notification s)) (c_notification s'))"

definition targets_user :: "Notification \<Rightarrow> bool" where
  "targets_user n = (\<not> read n \<and> to_user_id n \<noteq> None \<and> role n = None)"

definition broadcasts_to :: "string \<Rightarrow> Notification \<Rightarrow> bool" where
  "broadcasts_to r n = (\<not> read n \<and> to_user_id n = None \<and> role n = Some r)"



definition snapshot :: "'q PRLineIn list \<Rightarrow> 'q POLine list" where
  "snapshot ls = map (\<lambda>l. \<lparr>po_sku = sku l, po_name = name l, po_qty = qty l, po_uom = uom l\<rparr>) ls"

text \<open>
  The stock of a SKU (none when the SKU has no inventory document), and what posting
  receipt lines makes of it: the first line of a SKU without a document sets the stock,
  every other line is added to it, one after the other.
\<close>

definition on_hand_of :: "string \<Rightarrow> 'q db \<Rightarrow> 'q option" where
  "on_hand_of k s = map_option on_hand (find_one (\<lambda>d. inv_sku (snd d) = k) (c_inventory s))"

definition post_line :: "('q::plus) option \<Rightarrow> 'q GRLineIn \<Rightarrow> 'q option" where
  "post_line h l = Some (case h of None \<Rightarrow> qty_received l | Some x \<Rightarrow> x + qty_received l)"

definition stock_after :: "string \<Rightarrow> ('q::plus) option \<Rightarrow> 'q GRLineIn list \<Rightarrow> 'q option" where
  "stock_after k h ls = foldl post_line h (filter (\<lambda>l. gr_sku l = k) ls)"

text \<open>
  Every receipt line ever posted, and what conservation of stock says of a SKU: its stock
  is what posting all these lines, in their order, makes of no stock, or of the stock 0
  that registering the item first has set.
\<close>

definition posted_lines :: "'q db \<Rightarrow> 'q GRLineIn list" where
  "posted_lines s = concat (map (\<lambda>d. gr_lines (snd d)) (c_goodsreceipt s))"

definition conserved :: "('q::{zero,plus}) db \<Rightarrow> string \<Rightarrow> bool" where
  "conserved s k =
     (on_hand_of k s = stock_after k None (posted_lines s) \<or>
      on_hand_of k s = stock_after k (Some 0) (posted_lines s))"

text \<open>Every purchase order of the store holds a well-formed \<open>pr_id\<close>.\<close>

definition po_refs_well_formed :: "'q db \<Rightarrow> bool" where
  "po_refs_well_formed s = list_all (\<lambda>d. valid_id (pr_id (snd d))) (c_purchaseorder s)"

text \<open>The two user lookups of \<open>create_pr\<close>: by \<open>_id\<close> and \<open>role\<close>, nothing else.\<close>

definition is_employee :: "'q db \<Rightarrow> string \<Rightarrow> bool" where
  "is_employee s id_str =
     (case oid id_str of
        Inl e \<Rightarrow> False
      | Inr i \<Rightarrow> find_one (\<lambda>d. has_id i d \<and> user_role (snd d) = ''employee'') (c_user s) \<noteq> None)"

definition is_manager :: "'q db \<Rightarrow> string \<Rightarrow> bool" where
  "is_manager s id_str =
     (case oid id_str of
        Inl e \<Rightarrow> False
      | Inr i \<Rightarrow> find_one (\<lambda>d. has_id i d \<and> user_role (snd d) = ''manager'') (c_user s) \<noteq> None)"

subsection \<open>A store to evaluate on\<close>

text \<open>
  The store after an employee and a manager were registered, a supplier was created, the
  employee submitted two requests, and the second was approved and ordered. Its quantities
  are reals holding small whole numbers, on which floating-point arithmetic is exact.
\<close>

definition eve_id :: string where "eve_id = ''000000000000000000000000''"
definition max_id :: string where "max_id = ''000000000000000000000001''"
definition acme_id :: string where "acme_id = ''000000000000000000000002''"
definition pr_a_id :: string where "pr_a_id = ''000000000000000000000003''"
definition pr_b_id :: string where "pr_b_id = ''000000000000000000000005''"
definition po_b_id :: string where "po_b_id = ''000000000000000000000008''"

definition eve :: User where
  "eve = \<lparr>user_name = ''Eve'', user_email = ''eve@example.com'', user_role = ''employee'',
          user_department = None, user_manager_id = None, is_active = True\<rparr>"

definition max_user :: User where
  "max_user = \<lparr>user_name = ''Max'', user_email = ''max@example.com'', user_role = ''manager'',
          user_department = None, user_manager_id = None, is_active = True\<rparr>"

definition acme :: SupplierIn where
  "acme = \<lparr>si_name = ''Acme'', si_code = ''S1'', si_contact_email = None, si_phone = None,
           si_address = None\<rparr>"

definition ten_a1 :: "real PRLineIn" where
  "ten_a1 = \<lparr>sku = ''A1'', name = ''bolt'', qty = 10, uom = ''pcs''\<rparr>"

definition pr_a :: "real PurchaseRequest" where
  "pr_a = \<lparr>employee_id = eve_id, manager_id = max_id, reason = None, lines = [ten_a1],
           status = ''submitted'', approved_by = None, approved_at = None,
           rejected_reason = None, po_id = None\<rparr>"

definition pr_b :: "real PurchaseRequest" where
  "pr_b = \<lparr>employee_id = eve_id, manager_id = max_id, reason = None, lines = [ten_a1],
           status = ''ordered'', approved_by = Some max_id, approved_at = Some 5,
           rejected_reason = None, po_id = Some po_b_id\<rparr>"

definition po_b :: "real PurchaseOrder" where
  "po_b = \<lparr>pr_id = pr_b_id, supplier_id = acme_id,
           po_lines = [\<lparr>po_sku = ''A1'', po_name = ''bolt'', po_qty = 10, po_uom = ''pcs''\<rparr>],
           po_status = ''sent''\<rparr>"

definition note_a :: Notification where
  "note_a = \<lparr>to_user_id = Some max_id, role = None, title = ''New Purchase Request'',
             message = ''PR 000000000000000000000003 awaiting your approval'',
             link_type = ''PR'', link_id = pr_a_id, read = False, updated_at = None\<rparr>"

definition note_b :: Notification where
  "note_b = \<lparr>to_user_id = Some max_id, role = None, title = ''New Purchase Request'',
             message = ''PR 000000000000000000000005 awaiting your approval'',
             link_type = ''PR'', link_id = pr_b_id, read = False, updated_at = None\<rparr>"

definition note_b_approved :: Notification where
  "note_b_approved = \<lparr>to_user_id = None, role = Some ''purchasing'', title = ''PR Approved'',
             message = ''PR 000000000000000000000005 is ready for PO'',
             link_type = ''PR'', link_id = pr_b_id, read = False, updated_at = None\<rparr>"

definition note_b_ordered :: Notification where
  "note_b_ordered = \<lparr>to_user_id = Some eve_id, role = None, title = ''PO Created'',
             message = ''PO 000000000000000000000008 created from your PR'',
             link_type = ''PO'', link_id = po_b_id, read = False, updated_at = None\<rparr>"

definition demo_db :: "real db" where
  "demo_db = \<lparr>c_user = [(eve_id, eve), (max_id, max_user)],
     c_supplier = [(acme_id, acme)], c_item = [], c_inventory = [],
     c_purchaserequest = [(pr_a_id, pr_a), (pr_b_id, pr_b)],
     c_purchaseorder = [(po_b_id, po_b)], c_goodsreceipt = [],
     c_notification = [(''000000000000000000000004'', note_a),
       (''000000000000000000000006'', note_b),
       (''000000000000000000000007'', note_b_approved),
       (''000000000000000000000009'', note_b_ordered)],
     next_id = 10\<rparr>"

text \<open>
  Two stores the API alone does not produce: one whose employee was deactivated, and one
  whose purchase order names a request that is not there.
\<close>

definition inactive_db :: "real db" where
  "inactive_db = demo_db\<lparr>c_user := [(eve_id, eve\<lparr>is_active := False\<rparr>), (max_id, max_user)]\<rparr>"

definition dangling_db :: "real db" where
  "dangling_db = demo_db\<lparr>c_purchaserequest := [(pr_a_id, pr_a)]\<rparr>"

text \<open>Requests used below.\<close>

definition approve_a :: "real request" where
  "approve_a = PostPrsDecision pr_a_id
     \<lparr>dec_manager_id = max_id, approve = True, dec_rejected_reason = None\<rparr>"

definition demo_requests :: "(datetime \<times> real request) list" where
  "demo_requests =
     [(0, PostUsers \<lparr>ui_name = ''Eve'', ui_email = ''eve@example.com'', ui_role = ''employee'',
            ui_department = None, ui_manager_id = None\<rparr>),
      (1, PostUsers \<lparr>ui_name = ''Max'', ui_email = ''max@example.com'', ui_role = ''manager'',
            ui_department = None, ui_manager_id = None\<rparr>),
      (2, PostSuppliers acme),
      (3, PostPrs \<lparr>rq_employee_id = eve_id, rq_manager_id = max_id, rq_reason = None,
            rq_lines = [ten_a1]\<rparr>),
      (4, PostPrs \<lparr>rq_employee_id = eve_id, rq_manager_id = max_id, rq_reason = None,
            rq_lines = [ten_a1]\<rparr>),
      (5, PostPrsDecision pr_b_id
            \<lparr>dec_manager_id = max_id, approve = True, dec_rejected_reason = None\<rparr>),
      (6, PostPos \<lparr>poc_pr_id = pr_b_id, poc_supplier_id = acme_id\<rparr>)]"

definition submit :: "real PRLineIn list \<Rightarrow> real PRCreate" where
  "submit ls = \<lparr>rq_employee_id = eve_id, rq_manager_id = max_id, rq_reason = None,
                rq_lines = ls\<rparr>"

definition receive :: "real GRLineIn list \<Rightarrow> real GRCreate" where
  "receive ls = \<lparr>grc_po_id = po_b_id, grc_lines = ls\<rparr>"

definition a1_received :: "real \<Rightarrow> real GRLineIn" where
  "a1_received q = \<lparr>gr_sku = ''A1'', gr_name = ''bolt'', qty_received = q, gr_uom = ''pcs''\<rparr>"

definition max_approves :: PRDecision where
  "max_approves = \<lparr>dec_manager_id = max_id, approve = True, dec_rejected_reason = None\<rparr>"

definition max_rejects :: PRDecision where
  "max_rejects =
     \<lparr>dec_manager_id = max_id, approve = False, dec_rejected_reason = Some ''budget''\<rparr>"

definition order_a :: POCreate where
  "order_a = \<lparr>poc_pr_id = pr_a_id, poc_supplier_id = acme_id\<rparr>"

definition approved_db :: "real db" where
  "approved_db = snd (handle 7 approve_a demo_db)"

section \<open>Properties\<close>

subsection \<open>The store primitives\<close>

lemma update_one_length [simp]: "length (update_one q f c) = length c"
  by (induction c) auto

lemma update_one_None: "find_one q c = None \<Longrightarrow> update_one q f c = c"
  by (induction c) (auto split: if_splits)

lemma find_one_update_same:
  "find_one (has_id i) c = Some d \<Longrightarrow> find_one (has_id i) (update_one (has_id i) f c) = Some (f d)"
  by (induction c) (auto simp: has_id_def split: if_splits)

lemma find_one_append:
  "find_one q (c @ c') = (case find_one q c of Some d \<Rightarrow> Some d | None \<Rightarrow> find_one q c')"
  by (induction c) auto

lemma update_one_nth:
  "k < length c \<Longrightarrow>
     update_one q f c ! k = c ! k \<or>
     (find_one q c = Some (snd (c ! k)) \<and> update_one q f c ! k = (fst (c ! k), f (snd (c ! k))))"
proof (induction c arbitrary: k)
  case Nil
  then show ?case by simp
next
  case (Cons d ds)
  show ?case
  proof (cases "q d")
    case True
    then show ?thesis by (cases k) auto
  next
    case False
    with Cons show ?thesis by (cases k) auto
  qed
qed

lemma update_one_fst [simp]: "map fst (update_one q f c) = map fst c"
  by (induction c) auto

lemma inc_on_hand_frame [simp]:
  "c_purchaserequest (inc_on_hand l s) = c_purchaserequest s"
  "c_purchaseorder (inc_on_hand l s) = c_purchaseorder s"
  "c_goodsreceipt (inc_on_hand l s) = c_goodsreceipt s"
  "c_notification (inc_on_hand l s) = c_notification s"
  "c_user (inc_on_hand l s) = c_user s"
  by (simp_all add: inc_on_hand_def create_inventory_doc_def fresh_def split: option.splits)

lemma update_inventory_frame [simp]:
  "c_purchaserequest (update_inventory ls s) = c_purchaserequest s"
  "c_purchaseorder (update_inventory ls s) = c_purchaseorder s"
  "c_goodsreceipt (update_inventory ls s) = c_goodsreceipt s"
  "c_notification (update_inventory ls s) = c_notification s"
  "c_user (update_inventory ls s) = c_user s"
  by (induction ls arbitrary: s) simp_all

lemmas create_doc_defs =
  create_user_doc_def create_supplier_doc_def create_item_doc_def create_inventory_doc_def
  create_pr_doc_def create_po_doc_def create_gr_doc_def create_notification_def fresh_def

lemma create_gr_prs: "c_purchaserequest (snd (create_gr data s)) = c_purchaserequest s"
  by (simp add: create_gr_def create_doc_defs Let_def split: sum.splits option.splits)

lemma pr_step_update:
  assumes k: "k < length c" and
    f: "\<And>d. find_one q c = Some d \<Longrightarrow> pr_edge (status d) (status (f d))"
  shows "fst (update_one q f c ! k) = fst (c ! k) \<and>
         (status (snd (update_one q f c ! k)) = status (snd (c ! k)) \<or>
          pr_edge (status (snd (c ! k))) (status (snd (update_one q f c ! k))))"
  using update_one_nth [OF k, of q f] f by auto

lemma pr_step_same:
  "k < length (c_purchaserequest s) \<Longrightarrow> c_purchaserequest s' = c_purchaserequest s \<Longrightarrow> pr_step s s' k"
  by (simp add: pr_step_def pr_status_at_def pr_id_at_def)

lemma decide_pr_step:
  assumes "k < length (c_purchaserequest s)"
  shows "pr_step s (snd (decide_pr now pid d s)) k"
proof (cases "fst (decide_pr now pid d s)")
  case (Inl e)
  then have "snd (decide_pr now pid d s) = s"
    by (auto simp: decide_pr_def Let_def create_doc_defs split: sum.splits option.splits if_splits)
  with assms show ?thesis by (simp add: pr_step_same)
next
  case (Inr r)
  then obtain i p where i: "oid pid = Inr i"
    and p: "find_one (has_id i) (c_purchaserequest s) = Some p"
    and st: "status p = ''submitted''"
    by (auto simp: decide_pr_def split: sum.splits option.splits if_splits)
  show ?thesis
  proof (cases "approve d")
    case True
    have "pr_edge (status p) ''approved''" by (simp add: st pr_edge_def)
    with pr_step_update [OF assms, of "has_id i"
        "\<lambda>d'. d'\<lparr>status := ''approved'', approved_by := Some (dec_manager_id d),
                 approved_at := Some now\<rparr>"] p
    show ?thesis using i st True Inr assms
      by (auto simp: pr_step_def pr_status_at_def pr_id_at_def decide_pr_def Let_def
            create_doc_defs split: if_splits)
  next
    case False
    have "pr_edge (status p) ''rejected''" by (simp add: st pr_edge_def)
    with pr_step_update [OF assms, of "has_id i"
        "\<lambda>d'. d'\<lparr>status := ''rejected'',
                 rejected_reason := Some (case dec_rejected_reason d of None \<Rightarrow> [] | Some r \<Rightarrow> r)\<rparr>"] p
    show ?thesis using i st False Inr assms
      by (auto simp: pr_step_def pr_status_at_def pr_id_at_def decide_pr_def Let_def
            create_doc_defs split: if_splits)
  qed
qed

lemma create_po_step:
  assumes "k < length (c_purchaserequest s)"
  shows "pr_step s (snd (create_po data s)) k"
proof (cases "fst (create_po data s)")
  case (Inl e)
  then have "snd (create_po data s) = s"
    by (auto simp: create_po_def Let_def create_doc_defs split: sum.splits option.splits if_splits)
  with assms show ?thesis by (simp add: pr_step_same)
next
  case (Inr r)
  then obtain i p j sp where i: "oid (poc_pr_id data) = Inr i"
    and p: "find_one (has_id i) (c_purchaserequest s) = Some p"
    and st: "status p = ''approved''"
    and j: "oid (poc_supplier_id data) = Inr j"
    and sp: "find_one (has_id j) (c_supplier s) = Some sp"
    by (auto simp: create_po_def split: sum.splits option.splits if_splits)
  have "pr_edge (status p) ''ordered''" by (simp add: st pr_edge_def)
  with pr_step_update [OF assms, of "has_id i"
      "\<lambda>d'. d'\<lparr>status := ''ordered'', po_id := Some (new_oid (next_id s))\<rparr>"] p
  show ?thesis using i st j sp assms
    by (auto simp: pr_step_def pr_status_at_def pr_id_at_def create_po_def Let_def
          create_doc_defs)
qed

lemma create_pr_step:
  assumes "k < length (c_purchaserequest s)"
  shows "pr_step s (snd (create_pr pr s)) k"
  using assms
  by (auto simp: pr_step_def pr_status_at_def pr_id_at_def create_pr_def Let_def
        create_doc_defs nth_append split: sum.splits option.splits)

lemma handle_step:
  assumes "k < length (c_purchaserequest s)"
  shows "pr_step s (snd (handle now r s)) k"
proof (cases r)
  case (PostUsers u)
  with assms show ?thesis
    by (simp add: pr_step_same create_user_def create_doc_defs Let_def)
next
  case (PostSuppliers sp)
  with assms show ?thesis
    by (simp add: pr_step_same create_supplier_def create_doc_defs Let_def)
next
  case (PostItems it)
  with assms show ?thesis
    by (simp add: pr_step_same create_item_def create_doc_defs Let_def split: option.splits)
next
  case (PostPrs pr)
  with assms show ?thesis by (simp add: create_pr_step)
next
  case (PostPrsDecision pid d)
  with assms show ?thesis by (simp add: decide_pr_step)
next
  case (PostPos data)
  with assms show ?thesis by (simp add: create_po_step)
next
  case (PostGrs data)
  with assms show ?thesis by (simp add: pr_step_same create_gr_prs)
next
  case (PostNotificationsRead nid)
  with assms show ?thesis
    by (simp add: pr_step_same mark_notification_read_def split: sum.splits)
qed

lemma pr_edge_not_terminal: "pr_edge a b \<Longrightarrow> a \<noteq> ''rejected'' \<and> a \<noteq> ''ordered''"
  by (auto simp: pr_edge_def)

lemma run_steps:
  "k < length (c_purchaserequest s) \<Longrightarrow>
     k < length (c_purchaserequest (run rs s)) \<and> pr_id_at (run rs s) k = pr_id_at s k \<and>
     pr_edge\<^sup>*\<^sup>* (pr_status_at s k) (pr_status_at (run rs s) k)"
proof (induction rs arbitrary: s)
  case Nil
  then show ?case by simp
next
  case (Cons r rs)
  let ?s1 = "snd (handle (fst r) (snd r) s)"
  from handle_step [OF Cons.prems, of "fst r" "snd r"]
  have 1: "pr_step s ?s1 k" .
  then have k1: "k < length (c_purchaserequest ?s1)" by (simp add: pr_step_def)
  from Cons.IH [OF k1] 1 show ?case
    by (auto simp: pr_step_def intro: converse_rtranclp_into_rtranclp)
qed

lemma pr_edge_star_terminal:
  "pr_edge\<^sup>*\<^sup>* a b \<Longrightarrow> a = ''rejected'' \<or> a = ''ordered'' \<Longrightarrow> b = a"
  by (induction rule: converse_rtranclp_induct) (auto dest: pr_edge_not_terminal)

text \<open>
  Claim C1. Whatever request is handled in whatever store, a purchase request keeps its
  place and its identifier, and its status either stays or moves along one of the edges
  submitted \<open>\<rightarrow>\<close> approved, submitted \<open>\<rightarrow>\<close> rejected, approved \<open>\<rightarrow>\<close> ordered. Over a
  whole run of requests the status therefore follows a path of these edges, and a request
  that is rejected or ordered stays so.
\<close>
theorem pr_status_monotonic:
  assumes "k < length (c_purchaserequest s)"
  shows "pr_step s (snd (handle now r s)) k \<and>
         k < length (c_purchaserequest (run rs s)) \<and> pr_id_at (run rs s) k = pr_id_at s k \<and>
         pr_edge\<^sup>*\<^sup>* (pr_status_at s k) (pr_status_at (run rs s) k) \<and>
         (pr_status_at s k \<in> {''rejected'', ''ordered''} \<longrightarrow>
            pr_status_at (run rs s) k = pr_status_at s k)"
  using handle_step [OF assms] run_steps [OF assms, of rs] pr_edge_star_terminal
  by blast

lemma create_pr_notifications:
  "\<exists>ns. c_notification (snd (create_pr pr s)) = c_notification s @ ns \<and>
        list_all targets_user (map snd ns) \<and>
        length ns = (case fst (create_pr pr s) of Inl e \<Rightarrow> 0 | Inr r \<Rightarrow> 1)"
  by (auto simp: create_pr_def Let_def create_doc_defs targets_user_def
        split: sum.splits option.splits)

lemma decide_pr_notifications:
  "\<exists>ns. c_notification (snd (decide_pr now pid d s)) = c_notification s @ ns \<and>
        list_all (if approve d then broadcasts_to ''purchasing'' else targets_user) (map snd ns) \<and>
        length ns = (case fst (decide_pr now pid d s) of Inl e \<Rightarrow> 0 | Inr r \<Rightarrow> 1)"
  by (auto simp: decide_pr_def Let_def create_doc_defs targets_user_def broadcasts_to_def
        split: sum.splits option.splits)

lemma create_po_notifications:
  "\<exists>ns. c_notification (snd (create_po data s)) = c_notification s @ ns \<and>
        list_all targets_user (map snd ns) \<and>
        length ns = (case fst (create_po data s) of Inl e \<Rightarrow> 0 | Inr r \<Rightarrow> 1)"
  by (auto simp: create_po_def Let_def create_doc_defs targets_user_def
        split: sum.splits option.splits)

lemma create_gr_notifications:
  "\<exists>ns. c_notification (snd (create_gr data s)) = c_notification s @ ns \<and>
        list_all targets_user (map snd ns) \<and> length ns \<le> 1"
  by (auto simp: create_gr_def Let_def create_doc_defs targets_user_def
        split: sum.splits option.splits)

lemma created_append:
  "c_notification s' = c_notification s @ ns \<Longrightarrow> created_notifications s s' = map snd ns"
  by (simp add: created_notifications_def)

text \<open>
  Claim C10. Every notification a handler creates is unread and has exactly one of
  \<open>to_user_id\<close> and \<open>role\<close> set: PR submission, PR rejection, PO creation and GR creation
  target a user, PR approval broadcasts to the role purchasing; the other endpoints create
  none.
\<close>
theorem notifications_well_targeted:
  "(\<forall>n \<in> set (created_notifications s (snd (handle now r s))).
       read n = False \<and> ((to_user_id n = None) \<noteq> (role n = None))) \<and>
   (case r of
      PostPrs pr \<Rightarrow>
        list_all targets_user (created_notifications s (snd (handle now r s)))
    | PostPrsDecision pid d \<Rightarrow>
        list_all (if approve d then broadcasts_to ''purchasing'' else targets_user)
          (created_notifications s (snd (handle now r s)))
    | PostPos data \<Rightarrow>
        list_all targets_user (created_notifications s (snd (handle now r s)))
    | PostGrs data \<Rightarrow>
        list_all targets_user (created_notifications s (snd (handle now r s)))
    | _ \<Rightarrow> created_notifications s (snd (handle now r s)) = [])"
proof (cases r)
  case (PostUsers u)
  then show ?thesis
    by (simp add: created_notifications_def create_user_def create_doc_defs Let_def)
next
  case (PostSuppliers sp)
  then show ?thesis
    by (simp add: created_notifications_def create_supplier_def create_doc_defs Let_def)
next
  case (PostItems it)
  then show ?thesis
    by (simp add: created_notifications_def create_item_def create_doc_defs Let_def
          split: option.splits)
next
  case (PostPrs pr)
  from create_pr_notifications [of pr s] obtain ns where
    "c_notification (snd (create_pr pr s)) = c_notification s @ ns"
    "list_all targets_user (map snd ns)" by blast
  with PostPrs show ?thesis
    by (auto simp: created_append list_all_iff targets_user_def)
next
  case (PostPrsDecision pid d)
  from decide_pr_notifications [of now pid d s] obtain ns where
    "c_notification (snd (decide_pr now pid d s)) = c_notification s @ ns"
    "list_all (if approve d then broadcasts_to ''purchasing'' else targets_user) (map snd ns)"
    by blast
  with PostPrsDecision show ?thesis
    by (auto simp: created_append list_all_iff targets_user_def broadcasts_to_def
          split: if_splits)
next
  case (PostPos data)
  from create_po_notifications [of data s] obtain ns where
    "c_notification (snd (create_po data s)) = c_notification s @ ns"
    "list_all targets_user (map snd ns)" by blast
  with PostPos show ?thesis
    by (auto simp: created_append list_all_iff targets_user_def)
next
  case (PostGrs data)
  from create_gr_notifications [of data s] obtain ns where
    "c_notification (snd (create_gr data s)) = c_notification s @ ns"
    "list_all targets_user (map snd ns)" by blast
  with PostGrs show ?thesis
    by (auto simp: created_append list_all_iff targets_user_def)
next
  case (PostNotificationsRead nid)
  then show ?thesis
    by (simp add: created_notifications_def mark_notification_read_def split: sum.splits)
qed





lemma create_gr_grs:
  "oid (grc_po_id data) = Inr i \<Longrightarrow> find_one (has_id i) (c_purchaseorder s) = Some po \<Longrightarrow>
     c_goodsreceipt (snd (create_gr data s)) =
       c_goodsreceipt s @ [(new_oid (next_id s),
          \<lparr>gr_po_id = grc_po_id data, gr_lines = grc_lines data\<rparr>)]"
  by (simp add: create_gr_def Let_def create_doc_defs split: sum.splits option.splits)



lemma handle_po_lines:
  assumes "k < length (c_purchaseorder s)"
  shows "k < length (c_purchaseorder (snd (handle now r s))) \<and>
         fst (c_purchaseorder (snd (handle now r s)) ! k) = fst (c_purchaseorder s ! k) \<and>
         po_lines (snd (c_purchaseorder (snd (handle now r s)) ! k)) =
           po_lines (snd (c_purchaseorder s ! k))"
proof (cases r)
  case (PostUsers u)
  with assms show ?thesis by (simp add: create_user_def create_doc_defs Let_def)
next
  case (PostSuppliers sp)
  with assms show ?thesis by (simp add: create_supplier_def create_doc_defs Let_def)
next
  case (PostItems it)
  with assms show ?thesis
    by (simp add: create_item_def create_doc_defs Let_def split: option.splits)
next
  case (PostPrs pr)
  with assms show ?thesis
    by (simp add: create_pr_def create_doc_defs Let_def split: sum.splits option.splits)
next
  case (PostPrsDecision pid d)
  with assms show ?thesis
    by (simp add: decide_pr_def create_doc_defs Let_def split: sum.splits option.splits)
next
  case (PostPos data)
  with assms show ?thesis
    by (simp add: create_po_def create_doc_defs Let_def nth_append
          split: sum.splits option.splits)
next
  case (PostGrs data)
  have "fst (update_one q (\<lambda>d. d\<lparr>po_status := st\<rparr>) (c_purchaseorder s) ! k) =
            fst (c_purchaseorder s ! k) \<and>
          po_lines (snd (update_one q (\<lambda>d. d\<lparr>po_status := st\<rparr>) (c_purchaseorder s) ! k)) =
            po_lines (snd (c_purchaseorder s ! k))" for q st
    using update_one_nth [OF assms, of q "\<lambda>d. d\<lparr>po_status := st\<rparr>"] by auto
  with PostGrs assms show ?thesis
    by (simp add: create_gr_def create_doc_defs Let_def split: sum.splits option.splits)
next
  case (PostNotificationsRead nid)
  with assms show ?thesis
    by (simp add: mark_notification_read_def split: sum.splits)
qed

lemma run_po_lines:
  "k < length (c_purchaseorder s) \<Longrightarrow>
     k < length (c_purchaseorder (run rs s)) \<and>
     fst (c_purchaseorder (run rs s) ! k) = fst (c_purchaseorder s ! k) \<and>
     po_lines (snd (c_purchaseorder (run rs s) ! k)) = po_lines (snd (c_purchaseorder s ! k))"
proof (induction rs arbitrary: s)
  case Nil
  then show ?case by simp
next
  case (Cons r rs)
  from handle_po_lines [OF Cons.prems, of "fst r" "snd r"] Cons.IH
  show ?case by simp
qed

lemma create_po_appends:
  assumes "create_po data s = (Inr r, s')" "oid (poc_pr_id data) = Inr i"
    "find_one (has_id i) (c_purchaserequest s) = Some p"
  shows "\<exists>po. c_purchaseorder s' = c_purchaseorder s @ [(new_oid (next_id s), po)] \<and>
              r = Id (new_oid (next_id s)) \<and> po_lines po = snapshot (lines p)"
  using assms
  by (auto simp: create_po_def create_doc_defs Let_def snapshot_def
        split: sum.splits option.splits if_splits)

text \<open>
  Claim C7. The purchase order created from a request holds a copy of the request's lines,
  field by field, and keeps it: whatever is done to the request documents afterwards
  (\<open>prs'\<close> is any purchase-request collection put in their place) and whatever requests
  are handled then, the order's lines are still that copy.
\<close>
theorem po_lines_snapshot:
  assumes "create_po data s = (Inr r, s')" "oid (poc_pr_id data) = Inr i"
    "find_one (has_id i) (c_purchaserequest s) = Some p"
  shows "let k = length (c_purchaseorder s);
             s'' = run rs (s'\<lparr>c_purchaserequest := prs'\<rparr>)
         in k < length (c_purchaseorder s'') \<and>
            r = Id (fst (c_purchaseorder s'' ! k)) \<and>
            po_lines (snd (c_purchaseorder s'' ! k)) =
              map (\<lambda>l. \<lparr>po_sku = sku l, po_name = name l, po_qty = qty l, po_uom = uom l\<rparr>)
                (lines p)"
proof -
  from create_po_appends [OF assms] obtain po where
    po: "c_purchaseorder s' = c_purchaseorder s @ [(new_oid (next_id s), po)]"
      "r = Id (new_oid (next_id s))" "po_lines po = snapshot (lines p)" by blast
  let ?t = "s'\<lparr>c_purchaserequest := prs'\<rparr>"
  have k: "length (c_purchaseorder s) < length (c_purchaseorder ?t)" using po by simp
  from run_po_lines [OF k, of rs] po show ?thesis
    by (simp add: Let_def snapshot_def)
qed

lemma find_sku_update_same:
  "find_one (\<lambda>d. inv_sku (snd d) = k) (update_one (\<lambda>d. inv_sku (snd d) = k)
       (\<lambda>d. d\<lparr>on_hand := on_hand d + x\<rparr>) c) =
     map_option (\<lambda>d. d\<lparr>on_hand := on_hand d + x\<rparr>) (find_one (\<lambda>d. inv_sku (snd d) = k) c)"
  by (induction c) auto

lemma find_sku_update_other:
  "k \<noteq> k' \<Longrightarrow>
   find_one (\<lambda>d. inv_sku (snd d) = k) (update_one (\<lambda>d. inv_sku (snd d) = k')
       (\<lambda>d. d\<lparr>on_hand := on_hand d + x\<rparr>) c) =
     find_one (\<lambda>d. inv_sku (snd d) = k) c"
  by (induction c) auto

lemma on_hand_inc:
  "on_hand_of k (inc_on_hand l s) =
     (if gr_sku l = k then post_line (on_hand_of k s) l else on_hand_of k s)"
  by (auto simp: on_hand_of_def inc_on_hand_def post_line_def create_doc_defs
        find_sku_update_same find_sku_update_other find_one_append split: option.splits)

lemma stock_after_Cons:
  "stock_after k h (l # ls) =
     (if gr_sku l = k then stock_after k (post_line h l) ls else stock_after k h ls)"
  by (simp add: stock_after_def)

lemma on_hand_update_inventory:
  "on_hand_of k (update_inventory ls s) = stock_after k (on_hand_of k s) ls"
proof (induction ls arbitrary: s)
  case Nil
  then show ?case by (simp add: stock_after_def)
next
  case (Cons l ls)
  show ?case by (simp add: Cons.IH on_hand_inc stock_after_Cons)
qed

lemma create_gr_inventory:
  "oid (grc_po_id data) = Inr i \<Longrightarrow> find_one (has_id i) (c_purchaseorder s) = Some po \<Longrightarrow>
     on_hand_of k (snd (create_gr data s)) = stock_after k (on_hand_of k s) (grc_lines data)"
proof -
  assume a: "oid (grc_po_id data) = Inr i" "find_one (has_id i) (c_purchaseorder s) = Some po"
  let ?s1 = "snd (create_gr_doc \<lparr>gr_po_id = grc_po_id data, gr_lines = grc_lines data\<rparr> s)"
  have 1: "on_hand_of k (snd (create_gr data s)) = on_hand_of k (update_inventory (grc_lines data) ?s1)"
    using a
    by (simp add: on_hand_of_def create_gr_def Let_def create_notification_def fresh_def
          split_def split: sum.splits option.splits)
  have 2: "on_hand_of k ?s1 = on_hand_of k s"
    by (simp add: on_hand_of_def create_doc_defs)
  show ?thesis unfolding 1 on_hand_update_inventory 2 ..
qed

subsection \<open>Purchase orders name well-formed requests\<close>

text \<open>
  \<open>create_po\<close> stores the \<open>pr_id\<close> it has converted with \<open>oid\<close>, and no handler rewrites it:
  in every store the API produces from the empty one, the \<open>pr_id\<close> of every purchase order
  is well-formed. What can go wrong with it is only that it finds no request.
\<close>

lemma update_one_set:
  "d \<in> set (update_one q f c) \<Longrightarrow> d \<in> set c \<or> (\<exists>d' \<in> set c. d = (fst d', f (snd d')))"
  by (induction c) (auto split: if_splits)

lemma oid_valid: "oid x = Inr i \<Longrightarrow> valid_id x"
  by (simp add: oid_def split: if_splits)

lemma valid_oid: "valid_id x \<Longrightarrow> oid x = Inr (map lower_hex x)"
  by (simp add: oid_def)

lemma handle_po_refs:
  assumes "po_refs_well_formed s"
  shows "po_refs_well_formed (snd (handle now r s))"
proof (cases r)
  case (PostUsers u)
  with assms show ?thesis
    by (simp add: po_refs_well_formed_def create_user_def create_doc_defs Let_def)
next
  case (PostSuppliers sp)
  with assms show ?thesis
    by (simp add: po_refs_well_formed_def create_supplier_def create_doc_defs Let_def)
next
  case (PostItems it)
  with assms show ?thesis
    by (simp add: po_refs_well_formed_def create_item_def create_doc_defs Let_def
          split: option.splits)
next
  case (PostPrs pr)
  with assms show ?thesis
    by (simp add: po_refs_well_formed_def create_pr_def create_doc_defs Let_def
          split: sum.splits option.splits)
next
  case (PostPrsDecision pid d)
  with assms show ?thesis
    by (simp add: po_refs_well_formed_def decide_pr_def create_doc_defs Let_def
          split: sum.splits option.splits)
next
  case (PostPos data)
  with assms show ?thesis
    by (auto simp: po_refs_well_formed_def create_po_def create_doc_defs Let_def
          dest: oid_valid split: sum.splits option.splits)
next
  case (PostGrs data)
  have "list_all (\<lambda>d. valid_id (pr_id (snd d)))
          (update_one q (\<lambda>d. d\<lparr>po_status := st\<rparr>) (c_purchaseorder s))" for q st
    using assms update_one_set [of _ q "\<lambda>d. d\<lparr>po_status := st\<rparr>" "c_purchaseorder s"]
    by (fastforce simp: po_refs_well_formed_def list_all_iff)
  with PostGrs assms show ?thesis
    by (simp add: po_refs_well_formed_def create_gr_def create_doc_defs Let_def
          split: sum.splits option.splits)
next
  case (PostNotificationsRead nid)
  with assms show ?thesis
    by (simp add: po_refs_well_formed_def mark_notification_read_def split: sum.splits)
qed

lemma run_po_refs: "po_refs_well_formed s \<Longrightarrow> po_refs_well_formed (run rs s)"
proof (induction rs arbitrary: s)
  case Nil
  then show ?case by simp
next
  case (Cons r rs)
  from handle_po_refs [OF Cons.prems] Cons.IH show ?case by simp
qed

lemma find_one_in_set: "find_one q c = Some d \<Longrightarrow> \<exists>i. (i, d) \<in> set c"
  by (induction c) (auto split: if_splits)

lemma po_pr_id_well_formed:
  assumes "find_one q (c_purchaseorder (run rs empty_db)) = Some po"
  shows "oid (pr_id po) = Inr (map lower_hex (pr_id po))"
proof -
  have "po_refs_well_formed (empty_db :: 'a db)"
    by (simp add: po_refs_well_formed_def empty_db_def)
  then have "po_refs_well_formed (run rs (empty_db :: 'a db))" by (rule run_po_refs)
  with find_one_in_set [OF assms] have "valid_id (pr_id po)"
    by (auto simp: po_refs_well_formed_def list_all_iff)
  then show ?thesis by (rule valid_oid)
qed


lemma create_pr_result:
  "case create_pr pr s of
     (Inl e, s') \<Rightarrow> status_code e = 400 \<and> s' = s \<and>
        \<not> (is_employee s (rq_employee_id pr) \<and> is_manager s (rq_manager_id pr))
   | (Inr r, s') \<Rightarrow> is_employee s (rq_employee_id pr) \<and> is_manager s (rq_manager_id pr) \<and>
        r = Id (new_oid (next_id s)) \<and>
        c_purchaserequest s' = c_purchaserequest s @
          [(new_oid (next_id s),
            \<lparr>employee_id = rq_employee_id pr, manager_id = rq_manager_id pr,
             reason = rq_reason pr, lines = rq_lines pr, status = ''submitted'',
             approved_by = None, approved_at = None, rejected_reason = None,
             po_id = None\<rparr>)] \<and>
        length (c_notification s') = length (c_notification s) + 1"
  by (auto simp: create_pr_def is_employee_def is_manager_def oid_def Let_def create_doc_defs
        split: sum.splits option.splits if_splits)

text \<open>
  Claim C4, as amended. A submission whose lines all have a positive quantity (the list may
  be empty) succeeds exactly when the employee and manager lookups succeed, and then
  stores a request with these lines and the status submitted; otherwise it fails with
  status 400 and stores no request.
\<close>
theorem create_pr_accepts_lines:
  assumes "\<forall>l \<in> set (rq_lines pr). qty l > 0"
  shows "case create_pr pr s of
     (Inl e, s') \<Rightarrow> status_code e = 400 \<and> c_purchaserequest s' = c_purchaserequest s \<and>
        \<not> (is_employee s (rq_employee_id pr) \<and> is_manager s (rq_manager_id pr))
   | (Inr r, s') \<Rightarrow> is_employee s (rq_employee_id pr) \<and> is_manager s (rq_manager_id pr) \<and>
        r = Id (new_oid (next_id s)) \<and>
        (\<exists>d. c_purchaserequest s' = c_purchaserequest s @ [(new_oid (next_id s), d)] \<and>
             lines d = rq_lines pr \<and> status d = ''submitted'')"
  using create_pr_result [where pr = pr and s = s] by (auto split: sum.splits prod.splits)

text \<open>
  Claim C5, as amended. A submission succeeds exactly when \<open>employee_id\<close> finds a user with
  role employee and \<open>manager_id\<close> finds a user with role manager, active or not; it then
  stores one request and one notification. Otherwise it fails with status 400 and leaves
  the store as it was.
\<close>
theorem create_pr_validates_users:
  "case create_pr pr s of
     (Inl e, s') \<Rightarrow> status_code e = 400 \<and> s' = s \<and>
        \<not> (is_employee s (rq_employee_id pr) \<and> is_manager s (rq_manager_id pr))
   | (Inr r, s') \<Rightarrow> is_employee s (rq_employee_id pr) \<and> is_manager s (rq_manager_id pr) \<and>
        length (c_purchaserequest s') = length (c_purchaserequest s) + 1 \<and>
        length (c_notification s') = length (c_notification s) + 1"
  using create_pr_result [where pr = pr and s = s] by (auto split: sum.splits prod.splits)

subsection \<open>Conservation of stock\<close>

text \<open>
  In every store the API produces from the empty one, the stock of a SKU is what posting
  every receipt line of the SKU, in the order received, has accumulated, whatever the
  signs of the quantities.
\<close>

lemma stock_after_append:
  "stock_after k h (ls @ ls') = stock_after k (stock_after k h ls) ls'"
  by (simp add: stock_after_def)

lemma foldl_post_line_Some: "foldl post_line (Some x) ls \<noteq> None"
  by (induction ls arbitrary: x) (simp_all add: post_line_def)

lemma stock_after_None:
  "stock_after k h ls = None \<Longrightarrow> h = None \<and> filter (\<lambda>l. gr_sku l = k) ls = []"
proof (cases "filter (\<lambda>l. gr_sku l = k) ls")
  case Nil
  assume "stock_after k h ls = None"
  with Nil show ?thesis by (simp add: stock_after_def)
next
  case (Cons l ls')
  assume "stock_after k h ls = None"
  with Cons show ?thesis
    by (simp add: stock_after_def post_line_def foldl_post_line_Some)
qed

lemma conserved_same:
  "c_inventory s' = c_inventory s \<Longrightarrow> c_goodsreceipt s' = c_goodsreceipt s \<Longrightarrow>
     conserved s' k = conserved s k"
  by (simp add: conserved_def on_hand_of_def posted_lines_def)

lemma create_item_conserved:
  assumes "conserved s k"
  shows "conserved (snd (create_item item s)) k"
proof -
  have g: "posted_lines (snd (create_item item s)) = posted_lines s"
    by (simp add: posted_lines_def create_item_def create_doc_defs Let_def
          split: option.splits)
  have h: "on_hand_of k (snd (create_item item s)) =
        (if on_hand_of k s = None \<and> k = ii_sku item then Some 0 else on_hand_of k s)"
    by (auto simp: on_hand_of_def create_item_def create_doc_defs Let_def find_one_append
          split: option.splits)
  show ?thesis
  proof (cases "on_hand_of k s = None \<and> k = ii_sku item")
    case True
    with assms have "stock_after k None (posted_lines s) = None \<or>
        stock_after k (Some 0) (posted_lines s) = None"
      by (auto simp: conserved_def)
    then have "filter (\<lambda>l. gr_sku l = k) (posted_lines s) = []"
      by (auto dest: stock_after_None)
    then have e: "stock_after k (Some 0) (posted_lines s) = Some 0"
      by (simp add: stock_after_def)
    from True have "on_hand_of k s = None" "k = ii_sku item" by blast+
    then have o: "on_hand_of k (snd (create_item item s)) = Some 0"
      unfolding h by (simp only: simp_thms if_True)
    show ?thesis unfolding conserved_def g o e by simp
  next
    case False
    then have "on_hand_of k (snd (create_item item s)) = on_hand_of k s"
      unfolding h by (simp only: if_False)
    with assms show ?thesis by (simp add: conserved_def g)
  qed
qed

lemma create_gr_conserved:
  assumes "conserved s k"
  shows "conserved (snd (create_gr data s)) k"
proof (cases "\<exists>i po. oid (grc_po_id data) = Inr i \<and> find_one (has_id i) (c_purchaseorder s) = Some po")
  case False
  then have "snd (create_gr data s) = s"
    by (auto simp: create_gr_def split: sum.splits option.splits)
  with assms show ?thesis by simp
next
  case True
  then obtain i po where a: "oid (grc_po_id data) = Inr i"
    "find_one (has_id i) (c_purchaseorder s) = Some po" by blast
  have p: "posted_lines (snd (create_gr data s)) = posted_lines s @ grc_lines data"
    by (simp add: posted_lines_def create_gr_grs [OF a])
  from assms show ?thesis
    unfolding conserved_def p stock_after_append create_gr_inventory [OF a]
    by auto
qed

lemma handle_frame:
  assumes "\<forall>it. r \<noteq> PostItems it" "\<forall>data. r \<noteq> PostGrs data"
  shows "c_inventory (snd (handle now r s)) = c_inventory s \<and>
         c_goodsreceipt (snd (handle now r s)) = c_goodsreceipt s"
proof (cases r)
  case (PostUsers u)
  then show ?thesis by (simp add: create_user_def create_doc_defs Let_def)
next
  case (PostSuppliers sp)
  then show ?thesis by (simp add: create_supplier_def create_doc_defs Let_def)
next
  case (PostItems it)
  with assms show ?thesis by simp
next
  case (PostPrs pr)
  then show ?thesis
    by (simp add: create_pr_def create_doc_defs Let_def split: sum.splits option.splits)
next
  case (PostPrsDecision pid d)
  then show ?thesis
    by (simp add: decide_pr_def create_doc_defs Let_def split: sum.splits option.splits)
next
  case (PostPos data)
  then show ?thesis
    by (simp add: create_po_def create_doc_defs Let_def split: sum.splits option.splits)
next
  case (PostGrs data)
  with assms show ?thesis by simp
next
  case (PostNotificationsRead nid)
  then show ?thesis by (simp add: mark_notification_read_def split: sum.splits)
qed

lemma handle_conserved:
  assumes "conserved s k"
  shows "conserved (snd (handle now r s)) k"
proof (cases r)
  case (PostItems it)
  with assms show ?thesis by (simp add: create_item_conserved)
next
  case (PostGrs data)
  with assms show ?thesis by (simp add: create_gr_conserved)
qed (use assms handle_frame [of r now s] conserved_same [of "snd (handle now r s)" s k] in auto)

lemma run_conserved: "conserved s k \<Longrightarrow> conserved (run rs s) k"
proof (induction rs arbitrary: s)
  case Nil
  then show ?case by simp
next
  case (Cons r rs)
  from handle_conserved [OF Cons.prems] have "conserved (snd (handle (fst r) (snd r) s)) k" .
  from Cons.IH [OF this] show ?case by simp
qed

lemma on_hand_conservation:
  "on_hand_of k (run rs empty_db) = stock_after k None (posted_lines (run rs empty_db)) \<or>
   on_hand_of k (run rs empty_db) = stock_after k (Some 0) (posted_lines (run rs empty_db))"
proof -
  have "conserved (empty_db :: 'a db) k"
    by (simp add: conserved_def on_hand_of_def posted_lines_def empty_db_def stock_after_def)
  from run_conserved [OF this, of rs] show ?thesis
    by (simp add: conserved_def)
qed

subsection \<open>Evaluation on the example store\<close>

lemma oid_demo:
  "oid ''000000000000000000000000'' = Inr ''000000000000000000000000''"
  "oid ''000000000000000000000001'' = Inr ''000000000000000000000001''"
  "oid ''000000000000000000000002'' = Inr ''000000000000000000000002''"
  "oid ''000000000000000000000003'' = Inr ''000000000000000000000003''"
  "oid ''000000000000000000000004'' = Inr ''000000000000000000000004''"
  "oid ''000000000000000000000005'' = Inr ''000000000000000000000005''"
  "oid ''000000000000000000000008'' = Inr ''000000000000000000000008''"
  "oid ''0000000000000000000000ff'' = Inr ''0000000000000000000000ff''"
  by (simp_all add: oid_def valid_id_def is_hex_def lower_hex_def)

lemma new_oid_demo:
  "new_oid 10 = ''00000000000000000000000a''"
  "new_oid 11 = ''00000000000000000000000b''"
  "new_oid 12 = ''00000000000000000000000c''"
  by code_simp+

lemmas demo_defs =
  eve_id_def max_id_def acme_id_def pr_a_id_def pr_b_id_def po_b_id_def eve_def max_user_def
  acme_def ten_a1_def pr_a_def pr_b_def po_b_def note_a_def note_b_def note_b_approved_def
  note_b_ordered_def demo_db_def inactive_db_def dangling_db_def
  approve_a_def submit_def receive_def a1_received_def

lemmas eval_defs =
  create_user_def create_supplier_def create_item_def create_pr_def decide_pr_def
  create_po_def create_gr_def mark_notification_read_def inc_on_hand_def
  create_doc_defs has_id_def find_all_def Let_def oid_demo new_oid_demo demo_defs

lemma new_oid_Suc:
  "new_oid 0 = ''000000000000000000000000''"
  "new_oid (Suc 0) = ''000000000000000000000001''"
  "new_oid (Suc (Suc 0)) = ''000000000000000000000002''"
  "new_oid (Suc (Suc (Suc 0))) = ''000000000000000000000003''"
  "new_oid (Suc (Suc (Suc (Suc 0)))) = ''000000000000000000000004''"
  "new_oid (Suc (Suc (Suc (Suc (Suc 0))))) = ''000000000000000000000005''"
  "new_oid (Suc (Suc (Suc (Suc (Suc (Suc 0)))))) = ''000000000000000000000006''"
  "new_oid (Suc (Suc (Suc (Suc (Suc (Suc (Suc 0))))))) = ''000000000000000000000007''"
  "new_oid (Suc (Suc (Suc (Suc (Suc (Suc (Suc (Suc 0)))))))) = ''000000000000000000000008''"
  "new_oid (Suc (Suc (Suc (Suc (Suc (Suc (Suc (Suc (Suc 0))))))))) = ''000000000000000000000009''"
  by code_simp+

lemma demo_db_reachable: "run demo_requests empty_db = demo_db"
  by (simp add: demo_requests_def empty_db_def eval_defs new_oid_Suc)

lemma oid_more:
  "oid ''00000000000000000000000a'' = Inr ''00000000000000000000000a''"
  "oid ''00000000000000000000000b'' = Inr ''00000000000000000000000b''"
  by (simp_all add: oid_def valid_id_def is_hex_def lower_hex_def)

lemma run_append: "run (rs @ rs') s = run rs' (run rs s)"
  by (induction rs arbitrary: s) simp_all

text \<open>
  Claim C9. For a well-formed notification identifier, marking as read answers
  \<open>{ok: true}\<close> whether or not the notification exists: when it does, it is now read and
  \<open>updated_at\<close> is the current time; when it does not, the store is unchanged.
\<close>
theorem mark_notification_read_ok:
  "oid notif_id = Inr i \<Longrightarrow>
     fst (mark_notification_read now notif_id s) = Inr Ok \<and>
     (case find_one (has_id i) (c_notification s) of
        Some n \<Rightarrow>
          find_one (has_id i) (c_notification (snd (mark_notification_read now notif_id s))) =
            Some (n\<lparr>read := True, updated_at := Some now\<rparr>)
      | None \<Rightarrow> snd (mark_notification_read now notif_id s) = s)"
  by (auto simp: mark_notification_read_def find_one_update_same update_one_None
           split: option.splits)

text \<open>C9 on the example store: an existing notification, and an identifier that finds none.\<close>
theorem mark_notification_read_ok_witness:
  "fst (mark_notification_read 7 ''000000000000000000000004'' demo_db) = Inr Ok \<and>
   find_one (has_id ''000000000000000000000004'')
     (c_notification (snd (mark_notification_read 7 ''000000000000000000000004'' demo_db))) =
     Some (note_a\<lparr>read := True, updated_at := Some 7\<rparr>) \<and>
   find_one (has_id ''0000000000000000000000ff'') (c_notification demo_db) = None \<and>
   mark_notification_read 7 ''0000000000000000000000ff'' demo_db = (Inr Ok, demo_db)"
  using mark_notification_read_ok [of "''000000000000000000000004''"
      "''000000000000000000000004''" 7 demo_db]
    mark_notification_read_ok [of "''0000000000000000000000ff''"
      "''0000000000000000000000ff''" 7 demo_db]
  by (simp add: eval_defs prod_eq_iff)

text \<open>C1 on the example store: approving the first request, ordering the second again.\<close>
theorem pr_status_monotonic_witness:
  "pr_status_at demo_db 0 = ''submitted'' \<and>
   pr_step demo_db (snd (handle 7 approve_a demo_db)) 0 \<and>
   pr_status_at (run [(7, approve_a)] demo_db) 0 = ''approved'' \<and>
   pr_edge\<^sup>*\<^sup>* ''submitted'' ''approved'' \<and>
   pr_status_at demo_db 1 = ''ordered'' \<and>
   pr_status_at (run [(7, PostPos \<lparr>poc_pr_id = pr_b_id, poc_supplier_id = acme_id\<rparr>)] demo_db) 1 =
     ''ordered''"
  using pr_status_monotonic [of 0 demo_db 7 approve_a "[(7, approve_a)]"]
    pr_status_monotonic [of 1 demo_db 7 approve_a
      "[(7, PostPos \<lparr>poc_pr_id = pr_b_id, poc_supplier_id = acme_id\<rparr>)]"]
  by (simp add: eval_defs pr_status_at_def pr_id_at_def pr_step_def pr_edge_def)



text \<open>
  Claim C3, at a receipt with a negative quantity. From the empty store, the example
  requests followed by a goods receipt of \<open>- 1\<close> of SKU A1 are all accepted, and the stock of
  A1 is then \<open>- 1\<close>.
\<close>
theorem negative_receipt_on_hand:
  "fst (create_gr (receive [a1_received (- 1)]) (run demo_requests empty_db)) =
     Inr (Id ''00000000000000000000000a'') \<and>
   on_hand_of ''A1''
     (run (demo_requests @ [(7, PostGrs (receive [a1_received (- 1)]))]) empty_db) =
     Some (- 1)"
  by (simp add: run_append demo_db_reachable eval_defs on_hand_of_def)

text \<open>C4 as stated fails: a submission with no lines succeeds and is stored.\<close>
theorem create_pr_empty_lines_counterexample:
  "rq_lines (submit []) = [] \<and>
   fst (create_pr (submit []) demo_db) = Inr (Id ''00000000000000000000000a'') \<and>
   c_purchaserequest (snd (create_pr (submit []) demo_db)) =
     c_purchaserequest demo_db @ [(''00000000000000000000000a'', pr_a\<lparr>lines := []\<rparr>)]"
  by (simp add: eval_defs)

text \<open>C4 on the example store: a submission of ten A1.\<close>
theorem create_pr_accepts_lines_witness:
  "0 < qty ten_a1 \<and>
   is_employee demo_db eve_id \<and> is_manager demo_db max_id \<and>
   fst (create_pr (submit [ten_a1]) demo_db) = Inr (Id ''00000000000000000000000a'') \<and>
   c_purchaserequest (snd (create_pr (submit [ten_a1]) demo_db)) =
     c_purchaserequest demo_db @ [(''00000000000000000000000a'', pr_a)]"
  using create_pr_accepts_lines [of "submit [ten_a1]" demo_db]
  by (simp add: eval_defs is_employee_def is_manager_def)

text \<open>
  C5 as stated fails: the submission of an employee who is not active succeeds, and a request
  and a notification are stored.
\<close>
theorem inactive_employee_counterexample:
  "find_one (has_id eve_id) (c_user inactive_db) = Some (eve\<lparr>is_active := False\<rparr>) \<and>
   is_active (eve\<lparr>is_active := False\<rparr>) = False \<and>
   fst (create_pr (submit [ten_a1]) inactive_db) = Inr (Id ''00000000000000000000000a'') \<and>
   length (c_purchaserequest (snd (create_pr (submit [ten_a1]) inactive_db))) = 3 \<and>
   length (c_notification (snd (create_pr (submit [ten_a1]) inactive_db))) = 5"
  by (simp add: eval_defs)

text \<open>C5 on the example store: a valid submission, and one naming the employee as manager.\<close>
theorem create_pr_validates_users_witness:
  "is_employee demo_db (rq_employee_id (submit [ten_a1])) \<and>
   is_manager demo_db (rq_manager_id (submit [ten_a1])) \<and>
   length (c_notification (snd (create_pr (submit [ten_a1]) demo_db))) = 5 \<and>
   \<not> is_manager demo_db eve_id \<and>
   create_pr ((submit [ten_a1])\<lparr>rq_manager_id := eve_id\<rparr>) demo_db =
     (Inl (HTTPException 400 ''Invalid manager_id''), demo_db)"
  using create_pr_validates_users [where pr = "submit [ten_a1]" and s = demo_db]
    create_pr_validates_users
      [where pr = "(submit [ten_a1])\<lparr>rq_manager_id := eve_id\<rparr>" and s = demo_db]
  by (simp add: eval_defs is_employee_def is_manager_def)

text \<open>
  Claim C6. A decision by the assigned manager on a purchase request whose status is not
  submitted fails with status 400 and leaves the store as it was. So after a decision that
  succeeded, every further decision on the same request fails and changes nothing, with
  status 400 when it comes from the assigned manager.
\<close>
theorem decide_pr_not_pending:
  "(oid pr_id_str = Inr i \<and> find_one (has_id i) (c_purchaserequest s) = Some p \<and>
    manager_id p = dec_manager_id d \<and> status p \<noteq> ''submitted''
      \<longrightarrow> decide_pr now pr_id_str d s =
            (Inl (HTTPException 400 ''PR is not pending approval''), s))
   \<and> (fst (decide_pr now pr_id_str d s) = Inr r \<longrightarrow>
       (let s1 = snd (decide_pr now pr_id_str d s) in
          (\<exists>e. decide_pr now2 pr_id_str d2 s1 = (Inl e, s1)) \<and>
          (dec_manager_id d2 = dec_manager_id d \<longrightarrow>
             decide_pr now2 pr_id_str d2 s1 =
               (Inl (HTTPException 400 ''PR is not pending approval''), s1))))"
proof (intro conjI impI)
  assume "oid pr_id_str = Inr i \<and> find_one (has_id i) (c_purchaserequest s) = Some p \<and>
    manager_id p = dec_manager_id d \<and> status p \<noteq> ''submitted''"
  then show "decide_pr now pr_id_str d s =
            (Inl (HTTPException 400 ''PR is not pending approval''), s)"
    by (simp add: decide_pr_def)
next
  assume ok: "fst (decide_pr now pr_id_str d s) = Inr r"
  then obtain j where j: "oid pr_id_str = Inr j"
    by (auto simp: decide_pr_def split: sum.splits)
  from ok j obtain p where p: "find_one (has_id j) (c_purchaserequest s) = Some p"
    by (auto simp: decide_pr_def split: option.splits)
  from ok j p have m: "manager_id p = dec_manager_id d" and st: "status p = ''submitted''"
    by (auto simp: decide_pr_def split: if_splits)
  define s1 where "s1 = snd (decide_pr now pr_id_str d s)"
  have "\<exists>p'. find_one (has_id j) (c_purchaserequest s1) = Some p' \<and>
           manager_id p' = dec_manager_id d \<and> status p' \<noteq> ''submitted''"
    using j p m st
    by (auto simp: s1_def decide_pr_def Let_def create_notification_def fresh_def
          find_one_update_same)
  then obtain p' where p': "find_one (has_id j) (c_purchaserequest s1) = Some p'"
      "manager_id p' = dec_manager_id d" "status p' \<noteq> ''submitted''" by blast
  have a: "\<exists>e. decide_pr now2 pr_id_str d2 s1 = (Inl e, s1)"
    using j p' by (auto simp: decide_pr_def)
  have b: "dec_manager_id d2 = dec_manager_id d \<longrightarrow>
             decide_pr now2 pr_id_str d2 s1 =
               (Inl (HTTPException 400 ''PR is not pending approval''), s1)"
    using j p' by (auto simp: decide_pr_def)
  show "let s1 = snd (decide_pr now pr_id_str d s) in
          (\<exists>e. decide_pr now2 pr_id_str d2 s1 = (Inl e, s1)) \<and>
          (dec_manager_id d2 = dec_manager_id d \<longrightarrow>
             decide_pr now2 pr_id_str d2 s1 =
               (Inl (HTTPException 400 ''PR is not pending approval''), s1))"
    using a b unfolding s1_def Let_def by blast
qed

text \<open>C6 on the example store: the ordered request, and a second decision after a rejection.\<close>
theorem decide_pr_not_pending_witness:
  "status pr_b = ''ordered'' \<and>
   decide_pr 7 pr_b_id max_approves demo_db =
     (Inl (HTTPException 400 ''PR is not pending approval''), demo_db) \<and>
   fst (decide_pr 7 pr_a_id max_rejects demo_db) = Inr Ok \<and>
   decide_pr 8 pr_a_id max_approves (snd (decide_pr 7 pr_a_id max_rejects demo_db)) =
     (Inl (HTTPException 400 ''PR is not pending approval''),
      snd (decide_pr 7 pr_a_id max_rejects demo_db))"
  using decide_pr_not_pending [of pr_b_id pr_b_id demo_db pr_b max_approves 7]
    decide_pr_not_pending [of pr_a_id pr_a_id demo_db pr_a max_rejects 7 Ok 8 max_approves]
  by (simp add: eval_defs max_approves_def max_rejects_def)

text \<open>
  C7 on the example store: the first request is approved and ordered, its stored lines are
  then emptied and a goods receipt is posted; the order still has the line.
\<close>
theorem po_lines_snapshot_witness:
  "create_po order_a approved_db =
     (Inr (Id ''00000000000000000000000b''), snd (create_po order_a approved_db)) \<and>
   po_lines (snd (c_purchaseorder
      (run [(9, PostGrs \<lparr>grc_po_id = ''00000000000000000000000b'',
                        grc_lines = [a1_received 4]\<rparr>)]
         ((snd (create_po order_a approved_db))
            \<lparr>c_purchaserequest := [(pr_a_id, pr_a\<lparr>lines := []\<rparr>)]\<rparr>)) ! 1)) =
     [\<lparr>po_sku = ''A1'', po_name = ''bolt'', po_qty = 10, po_uom = ''pcs''\<rparr>]"
  using po_lines_snapshot [of order_a approved_db "Id ''00000000000000000000000b''"
      "snd (create_po order_a approved_db)" pr_a_id "pr_a\<lparr>status := ''approved'',
         approved_by := Some max_id, approved_at := Some 7\<rparr>"
      "[(9, PostGrs \<lparr>grc_po_id = ''00000000000000000000000b'',
                        grc_lines = [a1_received 4]\<rparr>)]"
      "[(pr_a_id, pr_a\<lparr>lines := []\<rparr>)]"]
  by (simp add: eval_defs oid_more order_a_def approved_db_def prod_eq_iff)


text \<open>C10 on the example store: the notification of an approval.\<close>
theorem notifications_well_targeted_witness:
  "created_notifications demo_db (snd (handle 7 approve_a demo_db)) =
     [\<lparr>to_user_id = None, role = Some ''purchasing'', title = ''PR Approved'',
       message = ''PR 000000000000000000000003 is ready for PO'', link_type = ''PR'',
       link_id = pr_a_id, read = False, updated_at = None\<rparr>] \<and>
   list_all (broadcasts_to ''purchasing'')
     (created_notifications demo_db (snd (handle 7 approve_a demo_db)))"
  using notifications_well_targeted [of demo_db 7 approve_a]
  by (simp add: eval_defs created_notifications_def broadcasts_to_def)

end
